theory Spec2Isabelle
  imports Complex_Main "HOL-Library.Word" "HOL-Library.AList"
begin

section \<open>JavaScript values\<close>

text \<open>
  belaUI.js is a Node.js program: every value it receives from a client is the result of
  \<^verbatim>\<open>JSON.parse\<close>, and every test it makes on such a value (\<^verbatim>\<open>== undefined\<close>,
  \<^verbatim>\<open><\<close>, \<^verbatim>\<open>></\<close>, \<^verbatim>\<open><=\<close>, \<^verbatim>\<open>typeof\<close>, truthiness) is JavaScript's, with its
  coercions. The values are modelled as they are at run time.

  A number is a double: a finite value (given by its exact rational value), an infinity
  (\<^verbatim>\<open>JSON.parse("1e999")\<close>) or NaN (never parsed, but the result of converting a string
  that is not numeric).
\<close>

datatype number = NaN | Infty bool | Fin rat

datatype jsval =
    Undefined
  | Null
  | Bool bool
  | Num number
  | Str string
  | Arr "jsval list"
  | Obj "(string \<times> jsval) list"

text \<open>
  \<open>Obj kvs\<close> lists the own properties of a parsed object in the order \<^verbatim>\<open>for ... in\<close>
  enumerates them; \<^verbatim>\<open>JSON.parse\<close> produces each key once. \<open>Undefined\<close> is what reading
  an absent property gives; it never occurs inside a parsed value.
\<close>

datatype exn = TypeError | SyntaxError

text \<open>
  \<open>field v k\<close> is \<^verbatim>\<open>v.k\<close> (or \<^verbatim>\<open>v[k]\<close>) for the property names this program reads
  from client values (\<^verbatim>\<open>delay\<close>, \<^verbatim>\<open>pipeline\<close>, \<^verbatim>\<open>min_br\<close>, \<^verbatim>\<open>max_br\<close>,
  \<^verbatim>\<open>srt_latency\<close>, \<^verbatim>\<open>srt_streamid\<close>, \<^verbatim>\<open>srtla_addr\<close>, \<^verbatim>\<open>srtla_port\<close>,
  \<^verbatim>\<open>password\<close>, \<^verbatim>\<open>token\<close>, \<^verbatim>\<open>persistent_token\<close> and the command names): none of
  them is a property of a string, an array, a number, a boolean or of \<^verbatim>\<open>Object.prototype\<close>,
  so only an object's own properties are found. Reading a property of \<^verbatim>\<open>null\<close> or
  \<^verbatim>\<open>undefined\<close> throws a TypeError: \<open>unreadable\<close> is that test, made by each
  function before its first read.
\<close>

fun field :: "jsval \<Rightarrow> string \<Rightarrow> jsval" where
  "field (Obj kvs) k = (case map_of kvs k of Some v \<Rightarrow> v | None \<Rightarrow> Undefined)"
| "field _ k = Undefined"

fun unreadable :: "jsval \<Rightarrow> bool" where
  "unreadable Null = True"
| "unreadable Undefined = True"
| "unreadable _ = False"

text \<open>\<^verbatim>\<open>v == undefined\<close> and \<^verbatim>\<open>v == null\<close>: true of \<^verbatim>\<open>undefined\<close> and \<^verbatim>\<open>null\<close> only.\<close>

fun eq_undefined :: "jsval \<Rightarrow> bool" where
  "eq_undefined Undefined = True"
| "eq_undefined Null = True"
| "eq_undefined _ = False"

text \<open>Truthiness (\<^verbatim>\<open>if (v)\<close>).\<close>

fun truthy :: "jsval \<Rightarrow> bool" where
  "truthy Undefined = False"
| "truthy Null = False"
| "truthy (Bool b) = b"
| "truthy (Num NaN) = False"
| "truthy (Num (Infty b)) = True"
| "truthy (Num (Fin q)) = (q \<noteq> 0)"
| "truthy (Str s) = (s \<noteq> [])"
| "truthy (Arr xs) = True"
| "truthy (Obj kvs) = True"

subsection \<open>String to number\<close>

text \<open>
  \<^verbatim>\<open>StringToNumber\<close> of ECMAScript: white space is trimmed, the empty string is 0, then a
  signed decimal literal (digits, an optional fraction, an optional exponent, or
  \<^verbatim>\<open>Infinity\<close>) or an unsigned hexadecimal, octal or binary integer literal; anything else
  is NaN. A \<open>char\<close> is a code unit below 256. The value is the exact value of the literal:
  the rounding of a literal that no double holds exactly (to the nearest double, to 0 or to
  an infinity) is not modelled.
\<close>

definition StrWhiteSpaceChar :: "char \<Rightarrow> bool" where
  "StrWhiteSpaceChar c = (of_char c \<in> {9, 10, 11, 12, 13, 32, 160 :: nat})"

definition trim :: "string \<Rightarrow> string" where
  "trim s = rev (dropWhile StrWhiteSpaceChar (rev (dropWhile StrWhiteSpaceChar s)))"

definition digit_of :: "char \<Rightarrow> nat" where
  "digit_of c =
     (let n = of_char c :: nat in
      if 48 \<le> n \<and> n \<le> 57 then n - 48
      else if 97 \<le> n \<and> n \<le> 102 then n - 87
      else if 65 \<le> n \<and> n \<le> 70 then n - 55
      else 36)"

definition is_digit :: "nat \<Rightarrow> char \<Rightarrow> bool" where
  "is_digit b c = (digit_of c < b)"

definition digits_val :: "nat \<Rightarrow> string \<Rightarrow> nat" where
  "digits_val b s = foldl (\<lambda>acc c. acc * b + digit_of c) 0 s"

definition pow10 :: "int \<Rightarrow> rat" where
  "pow10 k = (if 0 \<le> k then 10 ^ nat k else 1 / 10 ^ nat (- k))"

definition SignedInteger :: "string \<Rightarrow> int option" where
  "SignedInteger s =
     (let (neg, ds) = (case s of
            c # r \<Rightarrow> if c = CHR ''+'' then (False, r) else if c = CHR ''-'' then (True, r) else (False, s)
          | [] \<Rightarrow> (False, s))
      in if ds = [] \<or> \<not> list_all (is_digit 10) ds then None
         else Some (if neg then - int (digits_val 10 ds) else int (digits_val 10 ds)))"

definition ExponentPart :: "string \<Rightarrow> int option" where
  "ExponentPart s =
     (case s of
        [] \<Rightarrow> Some 0
      | c # r \<Rightarrow> if c = CHR ''e'' \<or> c = CHR ''E'' then SignedInteger r else None)"

definition StrUnsignedDecimalLiteral :: "string \<Rightarrow> number" where
  "StrUnsignedDecimalLiteral s =
     (if s = ''Infinity'' then Infty True
      else
        let ip = takeWhile (is_digit 10) s;
            r1 = dropWhile (is_digit 10) s;
            (fp, r2) = (case r1 of
                 c # t \<Rightarrow> if c = CHR ''.'' then (takeWhile (is_digit 10) t, dropWhile (is_digit 10) t)
                          else ([], r1)
               | [] \<Rightarrow> ([], r1))
        in if ip = [] \<and> fp = [] then NaN
           else (case ExponentPart r2 of
                   None \<Rightarrow> NaN
                 | Some e \<Rightarrow> Fin (of_nat (digits_val 10 (ip @ fp)) * pow10 (e - int (length fp)))))"

fun negate :: "number \<Rightarrow> number" where
  "negate NaN = NaN"
| "negate (Infty b) = Infty (\<not> b)"
| "negate (Fin q) = Fin (- q)"

definition NonDecimalIntegerLiteral :: "nat \<Rightarrow> string \<Rightarrow> number" where
  "NonDecimalIntegerLiteral b ds =
     (if ds = [] \<or> \<not> list_all (is_digit b) ds then NaN else Fin (of_nat (digits_val b ds)))"

definition StringToNumber :: "string \<Rightarrow> number" where
  "StringToNumber s =
     (case trim s of
        [] \<Rightarrow> Fin 0
      | [c] \<Rightarrow> StrUnsignedDecimalLiteral [c]
      | c # d # r \<Rightarrow>
          if c = CHR ''0'' \<and> (d = CHR ''x'' \<or> d = CHR ''X'') then NonDecimalIntegerLiteral 16 r
          else if c = CHR ''0'' \<and> (d = CHR ''o'' \<or> d = CHR ''O'') then NonDecimalIntegerLiteral 8 r
          else if c = CHR ''0'' \<and> (d = CHR ''b'' \<or> d = CHR ''B'') then NonDecimalIntegerLiteral 2 r
          else if c = CHR ''+'' then StrUnsignedDecimalLiteral (d # r)
          else if c = CHR ''-'' then negate (StrUnsignedDecimalLiteral (d # r))
          else StrUnsignedDecimalLiteral (c # d # r))"

subsection \<open>Value to string\<close>

text \<open>
  \<^verbatim>\<open>Number::toString\<close> writes an integer below \<open>2\<^sup>5\<^sup>3\<close> in magnitude as its decimal
  digits. The shortest round-trip digits it writes for every other finite number (a larger
  integer, a fraction) depend on the binary representation of the double and are left
  unspecified here.
\<close>

function decimal :: "nat \<Rightarrow> string" where
  "decimal n = (if n < 10 then [char_of (48 + n)] else decimal (n div 10) @ [char_of (48 + n mod 10)])"
  by pat_completeness auto
termination
  by (relation "measure id") auto

fun NumberToString :: "number \<Rightarrow> string" where
  "NumberToString NaN = ''NaN''"
| "NumberToString (Infty b) = (if b then ''Infinity'' else ''-Infinity'')"
| "NumberToString (Fin q) =
     (if of_int \<lfloor>q\<rfloor> = q \<and> \<bar>q\<bar> < 2 ^ 53
      then (if q < 0 then ''-'' else []) @ decimal (nat \<lfloor>\<bar>q\<bar>\<rfloor>)
      else undefined)"

fun join :: "string list \<Rightarrow> string" where
  "join [] = []"
| "join [s] = s"
| "join (s # t # r) = s @ '','' @ join (t # r)"

text \<open>
  \<^verbatim>\<open>ToString\<close>: an array is its elements joined by commas (\<^verbatim>\<open>null\<close> and \<^verbatim>\<open>undefined\<close>
  elements as the empty string), a plain object is \<^verbatim>\<open>[object Object]\<close>.
  A parsed object with an own property \<^verbatim>\<open>toString\<close> has no callable conversion, and
  converting it throws a TypeError; that throw is not modelled.
\<close>

fun ToString :: "jsval \<Rightarrow> string" where
  "ToString Undefined = ''undefined''"
| "ToString Null = ''null''"
| "ToString (Bool b) = (if b then ''true'' else ''false'')"
| "ToString (Num n) = NumberToString n"
| "ToString (Str s) = s"
| "ToString (Arr xs) = join (map (\<lambda>x. if eq_undefined x then [] else ToString x) xs)"
| "ToString (Obj kvs) = ''[object Object]''"

fun ToPrimitive :: "jsval \<Rightarrow> jsval" where
  "ToPrimitive (Arr xs) = Str (ToString (Arr xs))"
| "ToPrimitive (Obj kvs) = Str (ToString (Obj kvs))"
| "ToPrimitive v = v"

fun ToNumber :: "jsval \<Rightarrow> number" where
  "ToNumber Undefined = NaN"
| "ToNumber Null = Fin 0"
| "ToNumber (Bool b) = Fin (if b then 1 else 0)"
| "ToNumber (Num n) = n"
| "ToNumber (Str s) = StringToNumber s"
| "ToNumber (Arr xs) = StringToNumber (ToString (Arr xs))"
| "ToNumber (Obj kvs) = StringToNumber (ToString (Obj kvs))"

subsection \<open>Relational comparison\<close>

text \<open>
  The abstract relational comparison \<^verbatim>\<open>x < y\<close>: \<open>None\<close> is its result \<^verbatim>\<open>undefined\<close>
  (a NaN operand). Two strings are compared by code units, anything else as numbers.
\<close>

fun number_lt :: "number \<Rightarrow> number \<Rightarrow> bool option" where
  "number_lt NaN _ = None"
| "number_lt _ NaN = None"
| "number_lt (Fin a) (Fin b) = Some (a < b)"
| "number_lt (Fin a) (Infty b) = Some b"
| "number_lt (Infty a) (Fin b) = Some (\<not> a)"
| "number_lt (Infty a) (Infty b) = Some (\<not> a \<and> b)"

fun string_lt :: "string \<Rightarrow> string \<Rightarrow> bool" where
  "string_lt [] [] = False"
| "string_lt [] (y # ys) = True"
| "string_lt (x # xs) [] = False"
| "string_lt (x # xs) (y # ys) =
     (if x = y then string_lt xs ys else (of_char x :: nat) < of_char y)"

definition less_than :: "jsval \<Rightarrow> jsval \<Rightarrow> bool option" where
  "less_than x y =
     (case (ToPrimitive x, ToPrimitive y) of
        (Str a, Str b) \<Rightarrow> Some (string_lt a b)
      | (px, py) \<Rightarrow> number_lt (ToNumber px) (ToNumber py))"

text \<open>\<^verbatim>\<open>x < y\<close>, \<^verbatim>\<open>x > y\<close> and \<^verbatim>\<open>x <= y\<close> as the conditions of an \<^verbatim>\<open>if\<close>.\<close>

definition js_lt :: "jsval \<Rightarrow> jsval \<Rightarrow> bool" where
  "js_lt x y = (less_than x y = Some True)"

definition js_gt :: "jsval \<Rightarrow> jsval \<Rightarrow> bool" where
  "js_gt x y = (less_than y x = Some True)"

definition js_le :: "jsval \<Rightarrow> jsval \<Rightarrow> bool" where
  "js_le x y = (less_than y x = Some False)"

abbreviation int_lit :: "int \<Rightarrow> jsval" where
  "int_lit i \<equiv> Num (Fin (of_int i))"

section \<open>The state of the service\<close>

text \<open>
  \<^verbatim>\<open>config\<close> is the object read from \<^verbatim>\<open>config.json\<close>. A field that the object lacks
  is \<open>Undefined\<close>; \<^verbatim>\<open>updateConfig\<close> and \<^verbatim>\<open>setBitrate\<close> store the client's values as
  they are, whatever their type.
\<close>

record config =
  delay :: jsval
  pipeline :: jsval
  min_br :: jsval
  max_br :: jsval
  srt_latency :: jsval
  srt_streamid :: jsval
  srtla_addr :: jsval
  srtla_port :: jsval
  password_hash :: jsval

text \<open>A connection object of the \<^verbatim>\<open>ws\<close> server, with the two properties the program adds.\<close>

record conn =
  isAuthed :: bool
  authToken :: "string option"

text \<open>One interface of \<^verbatim>\<open>netif\<close>: \<^verbatim>\<open>{ip, txb, tp}\<close>.\<close>

record interface =
  ip :: string
  txb :: int
  tp :: int

text \<open>
  The payload of an outbound frame. An error text is kept as the operands of the source's
  string concatenation.
\<close>

datatype part = Txt string | Val jsval

datatype payload =
    AuthData bool jsval
  | ConfigData config
  | PipelinesData "(string \<times> string) list"
  | StatusData bool
  | NetifData "(string \<times> interface) list"
  | BitrateData jsval jsval
  | ErrorData "part list"

type_synonym frame = "string \<times> payload"

text \<open>
  What the program does to the world outside: files written, processes started. The bitrate
  file holds the two bitrates, each times 1000, on a line of its own; it is kept as the two
  values.
\<close>

datatype filename = CONFIG_FILE | AUTH_TOKENS_FILE | bitrate_file

datatype content =
    ConfigJson config
  | TokensJson "string set"
  | BitrateLines jsval jsval

datatype effect =
    WriteFileSync filename content
  | SpawnSync string "string list"
  | Spawn string "jsval list"

text \<open>
  An asynchronous call whose callback has not run yet: \<^verbatim>\<open>bcrypt.compare\<close> in
  \<^verbatim>\<open>tryAuth\<close> (with the connection, the \<^verbatim>\<open>auth\<close> object and the hash it was given) and
  \<^verbatim>\<open>dns.lookup\<close> in \<^verbatim>\<open>updateConfig\<close> (with the connection, the parameters and the
  resolved pipeline path; its callback is the one \<^verbatim>\<open>start\<close> passes, which spawns the
  runner).
\<close>

datatype task =
    Compare nat jsval jsval
  | Lookup nat jsval string

text \<open>
  The module's variables (\<^verbatim>\<open>config\<close>, \<^verbatim>\<open>tempTokens\<close>, \<^verbatim>\<open>persistentTokens\<close>,
  \<^verbatim>\<open>netif\<close>, \<^verbatim>\<open>isStreaming\<close>), the server's connections (\<^verbatim>\<open>wss.clients\<close>, in
  order, and the object of each), what \<^verbatim>\<open>getPipelines()\<close> finds in the pipeline
  directories at present (identifier, name, path), and the record of what has been sent,
  done and left pending. The token objects hold \<^verbatim>\<open>true\<close> under each stored token.
\<close>

record state =
  config :: config
  tempTokens :: "string set"
  persistentTokens :: "string set"
  netif :: "(string \<times> interface) list"
  isStreaming :: bool
  clients :: "nat list"
  conns :: "nat \<Rightarrow> conn"
  pipelines :: "(string \<times> string \<times> string) list"
  sent :: "(nat \<times> frame) list"
  effects :: "effect list"
  pending :: "task list"

section \<open>Helpers\<close>

text \<open>
  A frame given to \<^verbatim>\<open>conn.send\<close> is appended to \<open>sent\<close> with its connection; a file
  written and a process started or signalled are appended to \<open>effects\<close>. These calls,
  and the directory reads of \<^verbatim>\<open>getPipelines\<close>, are taken to succeed;
  \<^verbatim>\<open>console.log\<close> is left out.
\<close>

definition saveConfig :: "state \<Rightarrow> state" where
  "saveConfig s = s\<lparr>effects := effects s @ [WriteFileSync CONFIG_FILE (ConfigJson (config s))]\<rparr>"

definition savePersistentTokens :: "state \<Rightarrow> state" where
  "savePersistentTokens s =
     s\<lparr>effects := effects s @ [WriteFileSync AUTH_TOKENS_FILE (TokensJson (persistentTokens s))]\<rparr>"

definition buildMsg :: "string \<Rightarrow> payload \<Rightarrow> frame" where
  "buildMsg type data = (type, data)"

definition send :: "state \<Rightarrow> nat \<Rightarrow> frame \<Rightarrow> state" where
  "send s c msg = s\<lparr>sent := sent s @ [(c, msg)]\<rparr>"

definition broadcastMsg :: "state \<Rightarrow> string \<Rightarrow> payload \<Rightarrow> state" where
  "broadcastMsg s type data =
     (let msg = buildMsg type data
      in s\<lparr>sent := sent s @ map (\<lambda>c. (c, msg)) (filter (\<lambda>c. isAuthed (conns s c)) (clients s))\<rparr>)"

definition broadcastMsgExcept :: "state \<Rightarrow> nat \<Rightarrow> string \<Rightarrow> payload \<Rightarrow> state" where
  "broadcastMsgExcept s conn type data =
     (let msg = buildMsg type data
      in s\<lparr>sent := sent s @
            map (\<lambda>c. (c, msg)) (filter (\<lambda>c. c \<noteq> conn \<and> isAuthed (conns s c)) (clients s))\<rparr>)"

subsection \<open>Pipelines\<close>

text \<open>
  \<^verbatim>\<open>pipelines[id]\<close> converts \<^verbatim>\<open>id\<close> to a property key. A key that only
  \<^verbatim>\<open>Object.prototype\<close> has (\<^verbatim>\<open>constructor\<close>, ...) gives a function without a
  \<^verbatim>\<open>path\<close>, so \<^verbatim>\<open>searchPipelines\<close> returns \<^verbatim>\<open>undefined\<close>, which its caller's
  \<^verbatim>\<open>== null\<close> treats as \<^verbatim>\<open>null\<close>: \<open>None\<close> is both.
\<close>

definition searchPipelines :: "state \<Rightarrow> jsval \<Rightarrow> string option" where
  "searchPipelines s ident =
     (case map_of (pipelines s) (ToString ident) of
        Some (name, path) \<Rightarrow> Some path
      | None \<Rightarrow> None)"

definition getPipelineList :: "state \<Rightarrow> (string \<times> string) list" where
  "getPipelineList s = map (\<lambda>(ident, name, path). (ident, name)) (pipelines s)"

section \<open>Websocket packet handlers\<close>

definition sendError :: "state \<Rightarrow> nat \<Rightarrow> part list \<Rightarrow> state" where
  "sendError s conn msg = send s conn (buildMsg ''error'' (ErrorData msg))"

definition startError :: "state \<Rightarrow> nat \<Rightarrow> part list \<Rightarrow> state" where
  "startError s conn msg =
     send (sendError s conn msg) conn (buildMsg ''status'' (StatusData False))"

text \<open>
  \<^verbatim>\<open>setBitrate\<close> returns \<^verbatim>\<open>null\<close> (\<open>None\<close>) or the pair it stored. It throws when
  \<^verbatim>\<open>params\<close> is \<^verbatim>\<open>null\<close>. The new state is returned with the result.
\<close>

definition setBitrate :: "state \<Rightarrow> jsval \<Rightarrow> (exn + (jsval \<times> jsval) option) \<times> state" where
  "setBitrate s params =
     (if unreadable params then (Inl TypeError, s)
      else if eq_undefined (field params ''min_br'') \<or> eq_undefined (field params ''max_br'')
        then (Inr None, s)
      else if js_lt (field params ''min_br'') (int_lit 500) \<or>
              js_gt (field params ''min_br'') (int_lit 12000)
        then (Inr None, s)
      else if js_lt (field params ''max_br'') (int_lit 500) \<or>
              js_gt (field params ''max_br'') (int_lit 12000)
        then (Inr None, s)
      else if js_gt (field params ''min_br'') (field params ''max_br'')
        then (Inr None, s)
      else
        let s1 = s\<lparr>config := (config s)\<lparr>min_br := field params ''min_br'',
                                          max_br := field params ''max_br''\<rparr>\<rparr>;
            s2 = saveConfig s1;
            s3 = s2\<lparr>effects := effects s2 @
                   [WriteFileSync bitrate_file
                      (BitrateLines (field params ''min_br'') (field params ''max_br'')),
                    SpawnSync ''killall'' [''-HUP'', ''belacoder'']]\<rparr>
        in (Inr (Some (field params ''min_br'', field params ''max_br'')), s3))"

text \<open>
  \<^verbatim>\<open>dns.lookup(hostname, callback)\<close> of Node.js throws a TypeError at once when the host
  name is neither falsy nor a string; otherwise the lookup is left pending and its callback
  runs later.
\<close>

definition dns_lookup :: "state \<Rightarrow> nat \<Rightarrow> jsval \<Rightarrow> string \<Rightarrow> exn option \<times> state" where
  "dns_lookup s conn params path =
     (case field params ''srtla_addr'' of
        Str a \<Rightarrow> (None, s\<lparr>pending := pending s @ [Lookup conn params path]\<rparr>)
      | v \<Rightarrow> if truthy v then (Some TypeError, s)
             else (None, s\<lparr>pending := pending s @ [Lookup conn params path]\<rparr>))"

text \<open>
  \<^verbatim>\<open>updateConfig\<close> up to its call of \<^verbatim>\<open>dns.lookup\<close>. The result is the exception
  thrown, if any, and the new state; the value returned is used by no caller.
\<close>

definition updateConfig :: "state \<Rightarrow> nat \<Rightarrow> jsval \<Rightarrow> exn option \<times> state" where
  "updateConfig s conn params =
     (if unreadable params then (Some TypeError, s)
      else if eq_undefined (field params ''delay'')
        then (None, startError s conn [Txt ''audio delay not specified''])
      else if js_lt (field params ''delay'') (int_lit (- 2000)) \<or>
              js_gt (field params ''delay'') (int_lit 2000)
        then (None, startError s conn [Txt ''invalid delay '', Val (field params ''delay'')])
      else if eq_undefined (field params ''pipeline'')
        then (None, startError s conn [Txt ''pipeline not specified''])
      else case searchPipelines s (field params ''pipeline'') of
        None \<Rightarrow> (None, startError s conn [Txt ''pipeline not found''])
      | Some path \<Rightarrow>
         (case setBitrate s params of
            (Inl e, s1) \<Rightarrow> (Some e, s1)
          | (Inr None, s1) \<Rightarrow> (None, startError s1 conn [Txt ''invalid bitrate range: ''])
          | (Inr (Some bitrate), s1) \<Rightarrow>
              if eq_undefined (field params ''srt_latency'')
                then (None, startError s1 conn [Txt ''SRT latency not specified''])
              else if js_lt (field params ''srt_latency'') (int_lit 100) \<or>
                      js_gt (field params ''srt_latency'') (int_lit 10000)
                then (None, startError s1 conn
                       [Txt ''invalid SRT latency '', Val (field params ''srt_latency''), Txt '' ms''])
              else if eq_undefined (field params ''srt_streamid'')
                then (None, startError s1 conn [Txt ''SRT streamid not specified''])
              else if eq_undefined (field params ''srtla_addr'')
                then (None, startError s1 conn [Txt ''SRTLA address not specified''])
              else if eq_undefined (field params ''srtla_port'')
                then (None, startError s1 conn [Txt ''SRTLA port not specified''])
              else if js_le (field params ''srtla_port'') (int_lit 0) \<or>
                      js_gt (field params ''srtla_port'') (int_lit 65535)
                then (None, startError s1 conn
                       [Txt ''invalid SRTLA port '', Val (field params ''srtla_port'')])
              else dns_lookup s1 conn params path))"

text \<open>The callback \<^verbatim>\<open>start\<close> passes to \<^verbatim>\<open>updateConfig\<close>: it spawns the runner.\<close>

definition start_callback :: "state \<Rightarrow> string \<Rightarrow> state" where
  "start_callback s path =
     s\<lparr>effects := effects s @
        [Spawn ''ruby'' [Str ''runner.rb'', Str path, delay (config s), srtla_addr (config s),
                         srtla_port (config s), srt_latency (config s), srt_streamid (config s)]]\<rparr>"

text \<open>
  The callback of \<^verbatim>\<open>dns.lookup\<close> in \<^verbatim>\<open>updateConfig\<close>; \<open>err\<close> is \<^verbatim>\<open>err != null\<close>.
\<close>

definition updateConfig_callback :: "state \<Rightarrow> nat \<Rightarrow> jsval \<Rightarrow> string \<Rightarrow> bool \<Rightarrow> state" where
  "updateConfig_callback s conn params path err =
     (if \<not> err then
        let s1 = s\<lparr>config := (config s)
                    \<lparr>delay := field params ''delay'',
                     pipeline := field params ''pipeline'',
                     min_br := field params ''min_br'',
                     max_br := field params ''max_br'',
                     srt_latency := field params ''srt_latency'',
                     srt_streamid := field params ''srt_streamid'',
                     srtla_addr := field params ''srtla_addr'',
                     srtla_port := field params ''srtla_port''\<rparr>\<rparr>;
            s2 = saveConfig s1;
            s3 = broadcastMsgExcept s2 conn ''config'' (ConfigData (config s2))
        in start_callback s3 path
      else startError s conn [Txt ''failed to resolve SRTLA addr '', Val (field params ''srtla_addr'')])"

definition start :: "state \<Rightarrow> nat \<Rightarrow> jsval \<Rightarrow> exn option \<times> state" where
  "start s conn params = updateConfig s conn params"

definition stop :: "state \<Rightarrow> state" where
  "stop s =
     s\<lparr>effects := effects s @
        [SpawnSync ''pkill'' [''-f'', ''runner.rb''],
         SpawnSync ''killall'' [''srtla_send''],
         SpawnSync ''killall'' [''srtla_send_upstream''],
         SpawnSync ''killall'' [''belacoder'']]\<rparr>"

definition command :: "state \<Rightarrow> nat \<Rightarrow> jsval \<Rightarrow> state" where
  "command s conn cmd =
     (if cmd = Str ''poweroff'' then s\<lparr>effects := effects s @ [SpawnSync ''poweroff'' []]\<rparr>
      else if cmd = Str ''reboot'' then s\<lparr>effects := effects s @ [SpawnSync ''reboot'' []]\<rparr>
      else s)"

section \<open>Authentication\<close>

text \<open>\<^verbatim>\<open>Buffer.toString('base64')\<close>.\<close>

definition base64_char :: "nat \<Rightarrow> char" where
  "base64_char i = ''ABCDEFGHIJKLMNOPQRSTUVWXYZabcdefghijklmnopqrstuvwxyz0123456789+/'' ! i"

fun base64 :: "8 word list \<Rightarrow> string" where
  "base64 [] = []"
| "base64 [a] =
     [base64_char (unat a div 4), base64_char (unat a mod 4 * 16), CHR ''='', CHR ''='']"
| "base64 [a, b] =
     [base64_char (unat a div 4), base64_char (unat a mod 4 * 16 + unat b div 16),
      base64_char (unat b mod 16 * 4), CHR ''='']"
| "base64 (a # b # c # r) =
     [base64_char (unat a div 4), base64_char (unat a mod 4 * 16 + unat b div 16),
      base64_char (unat b mod 16 * 4 + unat c div 64), base64_char (unat c mod 64)] @ base64 r"

text \<open>
  \<^verbatim>\<open>tempTokens\<close> and \<^verbatim>\<open>persistentTokens\<close> are plain objects (\<^verbatim>\<open>{}\<close>, or the result
  of \<^verbatim>\<open>JSON.parse\<close>), so \<^verbatim>\<open>tokens[t]\<close> finds the properties they inherit from
  \<^verbatim>\<open>Object.prototype\<close> as well as their own, and every inherited one is truthy (a
  function, or the prototype itself for \<^verbatim>\<open>__proto__\<close>).
\<close>

definition Object_prototype :: "string list" where
  "Object_prototype =
     [''constructor'', ''__defineGetter__'', ''__defineSetter__'', ''hasOwnProperty'',
      ''__lookupGetter__'', ''__lookupSetter__'', ''isPrototypeOf'', ''propertyIsEnumerable'',
      ''toString'', ''valueOf'', ''__proto__'', ''toLocaleString'']"

definition lookup_token :: "string set \<Rightarrow> string \<Rightarrow> bool" where
  "lookup_token tokens t = (t \<in> tokens \<or> t \<in> set Object_prototype)"

text \<open>
  The test \<^verbatim>\<open>tempTokens[token] || persistentTokens[token]\<close> by which \<^verbatim>\<open>tryAuth\<close>
  validates a token.
\<close>

definition validate_token :: "state \<Rightarrow> string \<Rightarrow> bool" where
  "validate_token s token =
     (lookup_token (tempTokens s) token \<or> lookup_token (persistentTokens s) token)"

text \<open>
  \<^verbatim>\<open>genAuthToken\<close>; \<open>rnd\<close> is what \<^verbatim>\<open>crypto.randomBytes(32)\<close> returns. The result is
  the token and the new state.
\<close>

definition genAuthToken :: "state \<Rightarrow> jsval \<Rightarrow> 8 word list \<Rightarrow> string \<times> state" where
  "genAuthToken s isPersistent rnd =
     (let token = base64 rnd
      in if truthy isPersistent
         then (token, savePersistentTokens (s\<lparr>persistentTokens := insert token (persistentTokens s)\<rparr>))
         else (token, s\<lparr>tempTokens := insert token (tempTokens s)\<rparr>))"

definition sendInitialStatus :: "state \<Rightarrow> nat \<Rightarrow> state" where
  "sendInitialStatus s conn =
     (let s1 = send s conn (buildMsg ''config'' (ConfigData (config s)));
          s2 = send s1 conn (buildMsg ''pipelines'' (PipelinesData (getPipelineList s1)));
          s3 = send s2 conn (buildMsg ''status'' (StatusData (isStreaming s2)))
      in send s3 conn (buildMsg ''netif'' (NetifData (netif s3))))"

text \<open>\<^verbatim>\<open>connAuth\<close>; \<open>sendToken\<close> is \<open>Undefined\<close> when the caller passes none.\<close>

definition connAuth :: "state \<Rightarrow> nat \<Rightarrow> jsval \<Rightarrow> state" where
  "connAuth s conn sendToken =
     (let s1 = s\<lparr>conns := (conns s)(conn := (conns s conn)\<lparr>isAuthed := True\<rparr>)\<rparr>;
          s2 = send s1 conn (buildMsg ''auth''
                 (AuthData True (if \<not> eq_undefined sendToken then sendToken else Undefined)))
      in sendInitialStatus s2 conn)"

text \<open>
  The callback of \<^verbatim>\<open>bcrypt.compare\<close> in \<^verbatim>\<open>tryAuth\<close>: \<open>err\<close> is \<^verbatim>\<open>err != undefined\<close>,
  \<open>match\<close> is \<^verbatim>\<open>match == true\<close>.
\<close>

definition tryAuth_callback :: "state \<Rightarrow> nat \<Rightarrow> jsval \<Rightarrow> bool \<Rightarrow> bool \<Rightarrow> 8 word list \<Rightarrow> state" where
  "tryAuth_callback s conn msg err match rnd =
     (if match \<and> \<not> err then
        let (token, s1) = genAuthToken s (field msg ''persistent_token'') rnd;
            s2 = s1\<lparr>conns := (conns s1)(conn := (conns s1 conn)\<lparr>authToken := Some token\<rparr>)\<rparr>
        in connAuth s2 conn (Str token)
      else sendError s conn [Txt ''Invalid password''])"

definition tryAuth :: "state \<Rightarrow> nat \<Rightarrow> jsval \<Rightarrow> exn option \<times> state" where
  "tryAuth s conn msg =
     (if unreadable msg then (Some TypeError, s)
      else case field msg ''password'' of
        Str password \<Rightarrow>
          (None, s\<lparr>pending := pending s @ [Compare conn msg (password_hash (config s))]\<rparr>)
      | _ \<Rightarrow>
         (case field msg ''token'' of
            Str token \<Rightarrow>
              if validate_token s token
              then
                let s1 = connAuth s conn Undefined
                in (None, s1\<lparr>conns := (conns s1)(conn := (conns s1 conn)\<lparr>authToken := Some token\<rparr>)\<rparr>)
              else (None, send s conn (buildMsg ''auth'' (AuthData False Undefined)))
          | _ \<Rightarrow> (None, s)))"

section \<open>Message handling\<close>

text \<open>
  The keys \<^verbatim>\<open>for (const type in msg)\<close> goes through. An array or a string enumerates its
  indices, which name no command, and the other values enumerate nothing: for them the
  loops do nothing.
\<close>

fun for_in :: "jsval \<Rightarrow> string list" where
  "for_in (Obj kvs) = map fst kvs"
| "for_in _ = []"

text \<open>The first loop of \<^verbatim>\<open>handleMessage\<close>, over the keys left to go through.\<close>

fun auth_loop :: "state \<Rightarrow> nat \<Rightarrow> jsval \<Rightarrow> string list \<Rightarrow> exn option \<times> state" where
  "auth_loop s conn msg [] = (None, s)"
| "auth_loop s conn msg (type # types) =
     (if type = ''auth'' then
        (case tryAuth s conn (field msg type) of
           (Some e, s1) \<Rightarrow> (Some e, s1)
         | (None, s1) \<Rightarrow> auth_loop s1 conn msg types)
      else auth_loop s conn msg types)"

text \<open>The \<^verbatim>\<open>logout\<close> case.\<close>

definition logout :: "state \<Rightarrow> nat \<Rightarrow> state" where
  "logout s conn =
     (let s1 = (case authToken (conns s conn) of
                  None \<Rightarrow> s
                | Some t \<Rightarrow>
                    if t = [] then s
                    else
                      let s' = s\<lparr>tempTokens := tempTokens s - {t}\<rparr>
                      in if lookup_token (persistentTokens s') t
                         then savePersistentTokens (s'\<lparr>persistentTokens := persistentTokens s' - {t}\<rparr>)
                         else s')
      in s1\<lparr>conns := (conns s1)(conn := (conns s1 conn)\<lparr>isAuthed := False, authToken := None\<rparr>)\<rparr>)"

text \<open>One pass through the \<^verbatim>\<open>switch\<close> of the second loop.\<close>

definition dispatch :: "state \<Rightarrow> nat \<Rightarrow> string \<Rightarrow> jsval \<Rightarrow> exn option \<times> state" where
  "dispatch s conn type v =
     (if type = ''start'' then start s conn v
      else if type = ''stop'' then (None, stop s)
      else if type = ''bitrate'' then
        (if isStreaming s then
           (case setBitrate s v of
              (Inl e, s1) \<Rightarrow> (Some e, s1)
            | (Inr None, s1) \<Rightarrow> (None, s1)
            | (Inr (Some br), s1) \<Rightarrow>
                (None, broadcastMsgExcept s1 conn ''bitrate'' (BitrateData (fst br) (snd br))))
         else (None, s))
      else if type = ''command'' then (None, command s conn v)
      else if type = ''logout'' then (None, logout s conn)
      else (None, s))"

fun command_loop :: "state \<Rightarrow> nat \<Rightarrow> jsval \<Rightarrow> string list \<Rightarrow> exn option \<times> state" where
  "command_loop s conn msg [] = (None, s)"
| "command_loop s conn msg (type # types) =
     (case dispatch s conn type (field msg type) of
        (Some e, s1) \<Rightarrow> (Some e, s1)
      | (None, s1) \<Rightarrow> command_loop s1 conn msg types)"

definition handleMessage :: "state \<Rightarrow> nat \<Rightarrow> jsval \<Rightarrow> exn option \<times> state" where
  "handleMessage s conn msg =
     (case auth_loop s conn msg (for_in msg) of
        (Some e, s1) \<Rightarrow> (Some e, s1)
      | (None, s1) \<Rightarrow>
          if \<not> isAuthed (conns s1 conn) then (None, s1)
          else command_loop s1 conn msg (for_in msg))"

text \<open>
  The \<^verbatim>\<open>message\<close> listener of a connection. \<open>parsed\<close> is the outcome of
  \<^verbatim>\<open>JSON.parse(msg)\<close>: the SyntaxError it throws or the value. The \<^verbatim>\<open>catch\<close> logs
  whatever was thrown and keeps the state reached.
\<close>

definition incoming :: "state \<Rightarrow> nat \<Rightarrow> exn + jsval \<Rightarrow> state" where
  "incoming s conn parsed =
     (case parsed of
        Inl e \<Rightarrow> s
      | Inr msg \<Rightarrow> snd (handleMessage s conn msg))"

section \<open>Periodic polls\<close>

text \<open>
  The callback of \<^verbatim>\<open>exec\<close> in \<^verbatim>\<open>updateStatus\<close>; \<open>error\<close> is \<^verbatim>\<open>error != null\<close>.
\<close>

definition updateStatus_callback :: "state \<Rightarrow> bool \<Rightarrow> state" where
  "updateStatus_callback s error =
     (let streaming = \<not> error
      in if streaming \<noteq> isStreaming s
         then let s1 = s\<lparr>isStreaming := streaming\<rparr>
              in broadcastMsg s1 ''status'' (StatusData (isStreaming s1))
         else s)"

text \<open>
  The callback of \<^verbatim>\<open>exec\<close> in \<^verbatim>\<open>updateNetif\<close>. \<open>ints\<close> are the interfaces the text
  of \<^verbatim>\<open>ifconfig\<close> yields (name, address, transmitted bytes), those named \<^verbatim>\<open>lo\<close> or
  without an address left out; how the text is split and matched is not modelled, and no
  interface is taken to bear the name of a property of \<^verbatim>\<open>Object.prototype\<close>.
\<close>

definition updateNetif_callback :: "state \<Rightarrow> bool \<Rightarrow> (string \<times> string \<times> int) list \<Rightarrow> state" where
  "updateNetif_callback s error ints =
     (if error then s
      else
        let newints = foldl (\<lambda>acc (name, inet_addr, tx_bytes).
                AList.update name
                  \<lparr>ip = inet_addr, txb = tx_bytes,
                   tp = (case map_of (netif s) name of
                           Some old \<Rightarrow> tx_bytes - txb old
                         | None \<Rightarrow> 0)\<rparr> acc) [] ints;
            s1 = s\<lparr>netif := newints\<rparr>
        in broadcastMsg s1 ''netif'' (NetifData (netif s1)))"

section \<open>The event loop\<close>

text \<open>
  Node.js runs one listener or callback at a time. An event is what the run time delivers:
  a connection opened or closed, a frame on a connection, the completion of a pending
  \<^verbatim>\<open>bcrypt.compare\<close> or \<^verbatim>\<open>dns.lookup\<close> (by its position among the pending ones, with
  the outcome), and the completions of the two polls that the one-second timers start.
\<close>

datatype event =
    Connection nat
  | Close nat
  | Message nat "exn + jsval"
  | CompareDone nat bool bool "8 word list"
  | LookupDone nat bool
  | StatusDone bool
  | NetifDone bool "(string \<times> string \<times> int) list"

definition drop_task :: "nat \<Rightarrow> state \<Rightarrow> state" where
  "drop_task i s = s\<lparr>pending := take i (pending s) @ drop (Suc i) (pending s)\<rparr>"

fun step :: "state \<Rightarrow> event \<Rightarrow> state" where
  "step s (Connection c) =
     (if c \<in> set (clients s) then s
      else s\<lparr>clients := clients s @ [c],
             conns := (conns s)(c := \<lparr>isAuthed = False, authToken = None\<rparr>)\<rparr>)"
| "step s (Close c) = s\<lparr>clients := removeAll c (clients s)\<rparr>"
| "step s (Message c parsed) = (if c \<in> set (clients s) then incoming s c parsed else s)"
| "step s (CompareDone i err match rnd) =
     (if i < length (pending s) then
        (case pending s ! i of
           Compare conn msg hash \<Rightarrow> tryAuth_callback (drop_task i s) conn msg err match rnd
         | Lookup conn params path \<Rightarrow> s)
      else s)"
| "step s (LookupDone i err) =
     (if i < length (pending s) then
        (case pending s ! i of
           Lookup conn params path \<Rightarrow> updateConfig_callback (drop_task i s) conn params path err
         | Compare conn msg hash \<Rightarrow> s)
      else s)"
| "step s (StatusDone error) = updateStatus_callback s error"
| "step s (NetifDone error ints) = updateNetif_callback s error ints"

fun run :: "state \<Rightarrow> event list \<Rightarrow> state" where
  "run s [] = s"
| "run s (e # es) = run (step s e) es"

text \<open>
  The state when the module has been loaded: \<open>cfg\<close> and \<open>tokens\<close> are what
  \<^verbatim>\<open>config.json\<close> and \<^verbatim>\<open>auth_tokens.json\<close> hold (no tokens when the file cannot be
  read), \<open>ps\<close> the pipelines on disk.
\<close>

definition startup :: "config \<Rightarrow> string set \<Rightarrow> (string \<times> string \<times> string) list \<Rightarrow> state" where
  "startup cfg tokens ps =
     \<lparr>config = cfg, tempTokens = {}, persistentTokens = tokens, netif = [], isStreaming = False,
      clients = [], conns = (\<lambda>c. \<lparr>isAuthed = False, authToken = None\<rparr>), pipelines = ps,
      sent = [], effects = [], pending = []\<rparr>"

section \<open>The specification's conditions and example inputs\<close>

text \<open>
  The condition on a bitrate pair in the words of the specification: both values present,
  each within 500 and 12000, the minimum not above the maximum.
\<close>

fun is_number :: "jsval \<Rightarrow> bool" where
  "is_number (Num (Fin q)) = True"
| "is_number (Num (Infty b)) = True"
| "is_number _ = False"

fun in_range :: "rat \<Rightarrow> rat \<Rightarrow> jsval \<Rightarrow> bool" where
  "in_range lo hi (Num (Fin q)) = (lo \<le> q \<and> q \<le> hi)"
| "in_range lo hi _ = False"

fun at_most :: "jsval \<Rightarrow> jsval \<Rightarrow> bool" where
  "at_most (Num (Fin a)) (Num (Fin b)) = (a \<le> b)"
| "at_most _ _ = False"

definition bitrate_pair_ok :: "jsval \<Rightarrow> jsval \<Rightarrow> bool" where
  "bitrate_pair_ok mn mx = (in_range 500 12000 mn \<and> in_range 500 12000 mx \<and> at_most mn mx)"

text \<open>A configuration file and a pipeline directory, for the concrete runs below.\<close>

definition example_config :: config where
  "example_config =
     \<lparr>delay = int_lit 0, pipeline = Str ''p1'', min_br = int_lit 500, max_br = int_lit 6000,
      srt_latency = int_lit 2000, srt_streamid = Str [], srtla_addr = Str ''relay.example'',
      srtla_port = int_lit 5000, password_hash = Str ''hash''\<rparr>"

definition example_pipelines :: "(string \<times> string \<times> string) list" where
  "example_pipelines = [(''p1'', ''generic/h264'', ''/opt/belacoder/pipeline/generic/h264'')]"

text \<open>
  Runs of the service used as concrete inputs: a connection that has just been opened
  (with no stored token, and with the persistent token \<^verbatim>\<open>stored\<close> on disk), one that has
  authenticated with that token, one whose password is being verified, and one whose
  password has been verified, the 32 random bytes of its token being zero.
\<close>

definition example_bytes :: "8 word list" where
  "example_bytes = replicate 32 0"

definition example_start :: jsval where
  "example_start =
     Obj [(''delay'', int_lit 0), (''pipeline'', Str ''p1''), (''min_br'', int_lit 1000),
          (''max_br'', int_lit 2000), (''srt_latency'', int_lit 2000), (''srt_streamid'', Str []),
          (''srtla_addr'', Str ''relay.example''), (''srtla_port'', int_lit 5000)]"

definition one_client :: state where
  "one_client = step (startup example_config {} example_pipelines) (Connection 0)"

definition stored_client :: state where
  "stored_client = step (startup example_config {''stored''} example_pipelines) (Connection 0)"

definition token_client :: state where
  "token_client =
     run (startup example_config {''stored''} example_pipelines)
       [Connection 0, Message 0 (Inr (Obj [(''auth'', Obj [(''token'', Str ''stored'')])]))]"


definition password_client :: state where
  "password_client =
     run (startup example_config {} example_pipelines)
       [Connection 0,
        Message 0 (Inr (Obj [(''auth'', Obj [(''password'', Str ''secret'')])])),
        CompareDone 0 False True example_bytes]"

text \<open>\<^verbatim>\<open>typeof v == 'string'\<close>.\<close>

fun is_string :: "jsval \<Rightarrow> bool" where
  "is_string (Str s) = True"
| "is_string _ = False"

text \<open>
  The variables that handling a frame and the callbacks of \<^verbatim>\<open>bcrypt.compare\<close> and
  \<^verbatim>\<open>dns.lookup\<close> only read: the streaming flag, the interface metrics, the set of open
  connections and the pipelines on disk.
\<close>

definition read_only ::
  "state \<Rightarrow> bool \<times> (string \<times> interface) list \<times> nat list \<times> (string \<times> string \<times> string) list" where
  "read_only s = (isStreaming s, netif s, clients s, pipelines s)"

text \<open>The streaming flag after an event, when it was \<open>b\<close> before.\<close>

definition poll_result :: "bool \<Rightarrow> event \<Rightarrow> bool" where
  "poll_result b e = (case e of StatusDone error \<Rightarrow> \<not> error | _ \<Rightarrow> b)"

section \<open>Properties\<close>

subsection \<open>Comparisons of numbers\<close>

lemma js_lt_num: "js_lt (Num (Fin a)) (Num (Fin b)) = (a < b)"
  by (simp add: js_lt_def less_than_def)

lemma js_gt_num: "js_gt (Num (Fin a)) (Num (Fin b)) = (b < a)"
  by (simp add: js_gt_def less_than_def)

lemma js_le_num: "js_le (Num (Fin a)) (Num (Fin b)) = (a \<le> b)"
  by (auto simp add: js_le_def less_than_def)

lemma js_lt_Infty: "js_lt (Num (Infty b)) (Num (Fin q)) = (\<not> b)"
  by (simp add: js_lt_def less_than_def)

lemma js_gt_Infty: "js_gt (Num (Infty b)) (Num (Fin q)) = b"
  by (simp add: js_gt_def less_than_def)

lemmas StringToNumber_simps = StringToNumber_def trim_def StrWhiteSpaceChar_def
  StrUnsignedDecimalLiteral_def is_digit_def digit_of_def

subsection \<open>What the handlers leave alone\<close>

lemma read_only_send [simp]: "read_only (send s c m) = read_only s"
  by (simp add: send_def read_only_def)

lemma read_only_sendError [simp]: "read_only (sendError s c m) = read_only s"
  by (simp add: sendError_def)

lemma read_only_startError [simp]: "read_only (startError s c m) = read_only s"
  by (simp add: startError_def)

lemma read_only_saveConfig [simp]: "read_only (saveConfig s) = read_only s"
  by (simp add: saveConfig_def read_only_def)

lemma read_only_savePersistentTokens [simp]:
  "read_only (savePersistentTokens s) = read_only s"
  by (simp add: savePersistentTokens_def read_only_def)

lemma read_only_broadcastMsgExcept [simp]:
  "read_only (broadcastMsgExcept s c t d) = read_only s"
  by (simp add: broadcastMsgExcept_def Let_def read_only_def)

lemma read_only_setBitrate [simp]: "read_only (snd (setBitrate s p)) = read_only s"
  by (simp add: setBitrate_def Let_def saveConfig_def read_only_def)

lemma read_only_dns_lookup [simp]: "read_only (snd (dns_lookup s c p path)) = read_only s"
  by (simp add: dns_lookup_def read_only_def split: jsval.splits)

text \<open>
  Every state \<^verbatim>\<open>updateConfig\<close> can return: the one it was called in or the one
  \<^verbatim>\<open>setBitrate\<close> left, either of them with an error reported or with the lookup pending.
\<close>

lemma updateConfig_cases:
  assumes "P s" and "\<And>m. P (startError s c m)" and "P (snd (setBitrate s p))"
    and "\<And>m. P (startError (snd (setBitrate s p)) c m)"
    and "\<And>path. P (snd (dns_lookup (snd (setBitrate s p)) c p path))"
  shows "P (snd (updateConfig s c p))"
proof -
  obtain r s1 where sb: "setBitrate s p = (r, s1)"
    by (cases "setBitrate s p")
  with assms(3-5) have s1: "P s1" "\<And>m. P (startError s1 c m)"
    "\<And>path. P (snd (dns_lookup s1 c p path))"
    by simp_all
  show ?thesis
    by (simp add: updateConfig_def sb s1 assms(1,2) split: option.splits sum.splits)
qed

lemma read_only_updateConfig [simp]: "read_only (snd (updateConfig s c p)) = read_only s"
  by (rule_tac P = "\<lambda>s'. read_only s' = read_only s" in updateConfig_cases) simp_all

lemma read_only_start_callback [simp]: "read_only (start_callback s path) = read_only s"
  by (simp add: start_callback_def read_only_def)

lemma read_only_updateConfig_callback [simp]:
  "read_only (updateConfig_callback s c p path err) = read_only s"
proof (cases err)
  case True
  then show ?thesis by (simp add: updateConfig_callback_def)
next
  case False
  have "\<And>t. read_only (t\<lparr>config := config s\<rparr>) = read_only t"
    by (simp add: read_only_def)
  then show ?thesis
    using False by (simp add: updateConfig_callback_def Let_def read_only_def
        start_callback_def broadcastMsgExcept_def saveConfig_def)
qed

lemma read_only_start [simp]: "read_only (snd (start s c p)) = read_only s"
  by (simp add: start_def)

lemma read_only_stop [simp]: "read_only (stop s) = read_only s"
  by (simp add: stop_def read_only_def)

lemma read_only_command [simp]: "read_only (command s c v) = read_only s"
  by (simp add: command_def read_only_def)

lemma read_only_genAuthToken [simp]: "read_only (snd (genAuthToken s p rnd)) = read_only s"
  by (simp add: genAuthToken_def Let_def read_only_def savePersistentTokens_def)

lemma read_only_sendInitialStatus [simp]: "read_only (sendInitialStatus s c) = read_only s"
  by (simp add: sendInitialStatus_def Let_def)

lemma read_only_connAuth [simp]: "read_only (connAuth s c t) = read_only s"
  by (simp add: connAuth_def Let_def read_only_def sendInitialStatus_def send_def)

lemma read_only_conns_update [simp]: "read_only (s\<lparr>conns := f\<rparr>) = read_only s"
  by (simp add: read_only_def)

lemma read_only_tryAuth_callback [simp]:
  "read_only (tryAuth_callback s c m err match rnd) = read_only s"
proof -
  obtain t s1 where g: "genAuthToken s (field m ''persistent_token'') rnd = (t, s1)"
    by (cases "genAuthToken s (field m ''persistent_token'') rnd")
  then have "read_only s1 = read_only s"
    using read_only_genAuthToken [of s "field m ''persistent_token''" rnd] by simp
  then show ?thesis
    by (simp add: tryAuth_callback_def Let_def g)
qed

lemma read_only_pending_update [simp]: "read_only (s\<lparr>pending := f\<rparr>) = read_only s"
  by (simp add: read_only_def)

lemma read_only_tryAuth [simp]: "read_only (snd (tryAuth s c m)) = read_only s"
  by (simp add: tryAuth_def Let_def split: jsval.splits)

lemma read_only_auth_loop [simp]: "read_only (snd (auth_loop s c m ks)) = read_only s"
proof (induction ks arbitrary: s)
  case Nil
  then show ?case by simp
next
  case (Cons k ks)
  obtain r s1 where t: "tryAuth s c (field m k) = (r, s1)"
    by (cases "tryAuth s c (field m k)")
  then have "read_only s1 = read_only s"
    using read_only_tryAuth [of s c "field m k"] by simp
  then show ?case
    using Cons.IH [of s1] Cons.IH [of s] t by (cases r) auto
qed

lemma read_only_logout [simp]: "read_only (logout s c) = read_only s"
  by (simp add: logout_def Let_def read_only_def savePersistentTokens_def split: option.splits)

lemma read_only_dispatch [simp]: "read_only (snd (dispatch s c k v)) = read_only s"
proof -
  obtain r s1 where sb: "setBitrate s v = (r, s1)"
    by (cases "setBitrate s v")
  then have "read_only s1 = read_only s"
    using read_only_setBitrate [of s v] by simp
  then show ?thesis
    by (simp add: dispatch_def sb split: sum.splits option.splits)
qed

lemma read_only_command_loop [simp]:
  "read_only (snd (command_loop s c m ks)) = read_only s"
proof (induction ks arbitrary: s)
  case Nil
  then show ?case by simp
next
  case (Cons k ks)
  obtain r s1 where d: "dispatch s c k (field m k) = (r, s1)"
    by (cases "dispatch s c k (field m k)")
  then have "read_only s1 = read_only s"
    using read_only_dispatch [of s c k "field m k"] by simp
  then show ?case
    using Cons.IH [of s1] by (simp add: d split: option.splits)
qed

lemma read_only_handleMessage [simp]:
  "read_only (snd (handleMessage s c m)) = read_only s"
proof -
  obtain r s1 where a: "auth_loop s c m (for_in m) = (r, s1)"
    by (cases "auth_loop s c m (for_in m)")
  then have "read_only s1 = read_only s"
    using read_only_auth_loop [of s c m "for_in m"] by simp
  then show ?thesis
    by (simp add: handleMessage_def a split: option.splits)
qed

lemma read_only_incoming [simp]: "read_only (incoming s c p) = read_only s"
  by (simp add: incoming_def split: sum.splits)

lemma read_only_drop_task [simp]: "read_only (drop_task i s) = read_only s"
  by (simp add: drop_task_def)

lemma isStreaming_read_only: "isStreaming s = fst (read_only s)"
  by (simp add: read_only_def)

lemma isStreaming_updateNetif_callback [simp]:
  "isStreaming (updateNetif_callback s error ints) = isStreaming s"
  by (simp add: updateNetif_callback_def broadcastMsg_def Let_def)

lemma isStreaming_updateStatus_callback:
  "isStreaming (updateStatus_callback s error) = (\<not> error)"
  by (auto simp: updateStatus_callback_def broadcastMsg_def Let_def)

lemma isStreaming_step:
  "isStreaming (step s e) = (case e of StatusDone error \<Rightarrow> \<not> error | _ \<Rightarrow> isStreaming s)"
  by (cases e)
     (auto simp: isStreaming_updateStatus_callback isStreaming_read_only [of "incoming _ _ _"]
        isStreaming_read_only [of "tryAuth_callback _ _ _ _ _ _"]
        isStreaming_read_only [of "updateConfig_callback _ _ _ _ _"]
        simp flip: isStreaming_read_only split: task.splits)

lemma isStreaming_run: "isStreaming (run s es) = foldl poll_result (isStreaming s) es"
  by (induction es arbitrary: s) (simp_all add: isStreaming_step poll_result_def)

subsection \<open>Bitrate validation\<close>

text \<open>
  On numbers the validation is what the specification says: when \<^verbatim>\<open>min_br\<close> and
  \<^verbatim>\<open>max_br\<close> are each absent, \<^verbatim>\<open>null\<close> or a number, \<^verbatim>\<open>setBitrate\<close> accepts the
  pair exactly when both are present, each lies within 500 and 12000 and the minimum is not
  above the maximum; otherwise it returns \<^verbatim>\<open>null\<close>.
\<close>

theorem setBitrate_numbers:
  assumes "\<not> unreadable params"
    and "eq_undefined (field params ''min_br'') \<or> is_number (field params ''min_br'')"
    and "eq_undefined (field params ''max_br'') \<or> is_number (field params ''max_br'')"
  shows "fst (setBitrate s params) =
           (if bitrate_pair_ok (field params ''min_br'') (field params ''max_br'')
            then Inr (Some (field params ''min_br'', field params ''max_br''))
            else Inr None)"
proof -
  let ?mn = "field params ''min_br''" and ?mx = "field params ''max_br''"
  show ?thesis
  proof (cases "eq_undefined ?mn \<or> eq_undefined ?mx")
    case True
    then have "\<not> bitrate_pair_ok ?mn ?mx"
      by (cases ?mn; cases ?mx) (auto simp: bitrate_pair_ok_def)
    with True assms(1) show ?thesis
      by (simp add: setBitrate_def)
  next
    case False
    with assms obtain a b where ab: "?mn = Num a" "?mx = Num b" "a \<noteq> NaN" "b \<noteq> NaN"
      by (cases ?mn rule: is_number.cases; cases ?mx rule: is_number.cases) auto
    show ?thesis
      using assms(1) ab
      by (cases a; cases b)
         (auto simp: setBitrate_def bitrate_pair_ok_def js_lt_num js_gt_num js_lt_Infty
            js_gt_Infty Let_def)
  qed
qed

text \<open>
  The boundary pairs of the specification: 500 and 12000 are accepted; a minimum of 499 or
  of 12001, the pair 600 and 500, and a missing minimum are rejected.
\<close>

theorem setBitrate_numbers_witness:
  "\<not> unreadable (Obj [(''min_br'', int_lit 500), (''max_br'', int_lit 12000)]) \<and>
   is_number (field (Obj [(''min_br'', int_lit 500), (''max_br'', int_lit 12000)]) ''min_br'') \<and>
   is_number (field (Obj [(''min_br'', int_lit 500), (''max_br'', int_lit 12000)]) ''max_br'') \<and>
   fst (setBitrate (startup example_config {} example_pipelines)
          (Obj [(''min_br'', int_lit 500), (''max_br'', int_lit 12000)]))
     = Inr (Some (int_lit 500, int_lit 12000)) \<and>
   fst (setBitrate (startup example_config {} example_pipelines)
          (Obj [(''min_br'', int_lit 499), (''max_br'', int_lit 12000)])) = Inr None \<and>
   fst (setBitrate (startup example_config {} example_pipelines)
          (Obj [(''min_br'', int_lit 12001), (''max_br'', int_lit 12000)])) = Inr None \<and>
   fst (setBitrate (startup example_config {} example_pipelines)
          (Obj [(''min_br'', int_lit 600), (''max_br'', int_lit 500)])) = Inr None \<and>
   fst (setBitrate (startup example_config {} example_pipelines)
          (Obj [(''max_br'', int_lit 500)])) = Inr None"
  using
    setBitrate_numbers [of "Obj [(''min_br'', int_lit 500), (''max_br'', int_lit 12000)]"
      "startup example_config {} example_pipelines"]
    setBitrate_numbers [of "Obj [(''min_br'', int_lit 499), (''max_br'', int_lit 12000)]"
      "startup example_config {} example_pipelines"]
    setBitrate_numbers [of "Obj [(''min_br'', int_lit 12001), (''max_br'', int_lit 12000)]"
      "startup example_config {} example_pipelines"]
    setBitrate_numbers [of "Obj [(''min_br'', int_lit 600), (''max_br'', int_lit 500)]"
      "startup example_config {} example_pipelines"]
    setBitrate_numbers [of "Obj [(''max_br'', int_lit 500)]"
      "startup example_config {} example_pipelines"]
  by (simp add: bitrate_pair_ok_def)

text \<open>
  C8, at an input where the code departs from it: the strings \<^verbatim>\<open>"abc"\<close> and
  \<^verbatim>\<open>"abd"\<close> convert to NaN, so no comparison with 500 or 12000 is true, and
  \<^verbatim>\<open>"abc" > "abd"\<close> is false. Neither value lies within 500 and 12000, yet
  \<^verbatim>\<open>setBitrate\<close> accepts the pair: it stores the strings in the config, saves it, writes
  the bitrate file from them (each times 1000, which is NaN) and signals the encoder.
\<close>

theorem setBitrate_accepts_non_numeric_strings:
  "setBitrate (startup example_config {} example_pipelines)
     (Obj [(''min_br'', Str ''abc''), (''max_br'', Str ''abd'')]) =
     (Inr (Some (Str ''abc'', Str ''abd'')),
      (startup example_config {} example_pipelines)
        \<lparr>config := example_config\<lparr>min_br := Str ''abc'', max_br := Str ''abd''\<rparr>,
         effects :=
           [WriteFileSync CONFIG_FILE
              (ConfigJson (example_config\<lparr>min_br := Str ''abc'', max_br := Str ''abd''\<rparr>)),
            WriteFileSync bitrate_file (BitrateLines (Str ''abc'') (Str ''abd'')),
            SpawnSync ''killall'' [''-HUP'', ''belacoder'']]\<rparr>) \<and>
   \<not> bitrate_pair_ok (Str ''abc'') (Str ''abd'')"
  by (simp add: setBitrate_def js_lt_def js_gt_def less_than_def StringToNumber_simps
        bitrate_pair_ok_def saveConfig_def startup_def Let_def)

subsection \<open>The example runs\<close>

lemma one_client_conn: "conns one_client 0 = \<lparr>isAuthed = False, authToken = None\<rparr>"
  by (simp add: one_client_def startup_def)

lemma stored_client_eq:
  "stored_client = (startup example_config {''stored''} example_pipelines)\<lparr>clients := [0]\<rparr>"
  by (simp add: stored_client_def startup_def fun_upd_idem)

lemma one_client_eq:
  "one_client = (startup example_config {} example_pipelines)\<lparr>clients := [0]\<rparr>"
  by (simp add: one_client_def startup_def fun_upd_idem)

lemma token_client_eq:
  "token_client =
     (startup example_config {''stored''} example_pipelines)
       \<lparr>clients := [0],
        conns := (\<lambda>c. \<lparr>isAuthed = False, authToken = None\<rparr>)
                   (0 := \<lparr>isAuthed = True, authToken = Some ''stored''\<rparr>),
        sent := [(0, ''auth'', AuthData True Undefined),
                 (0, ''config'', ConfigData example_config),
                 (0, ''pipelines'', PipelinesData [(''p1'', ''generic/h264'')]),
                 (0, ''status'', StatusData False),
                 (0, ''netif'', NetifData [])]\<rparr>"
  by (simp add: token_client_def startup_def incoming_def handleMessage_def tryAuth_def
      validate_token_def lookup_token_def connAuth_def sendInitialStatus_def send_def buildMsg_def
      getPipelineList_def example_pipelines_def Let_def dispatch_def)


lemma length_example_bytes: "length example_bytes = 32"
  by (simp add: example_bytes_def)

lemma password_client_conn:
  "conns password_client 0 = \<lparr>isAuthed = True, authToken = Some (base64 example_bytes)\<rparr>"
  by (simp add: password_client_def startup_def incoming_def handleMessage_def tryAuth_def
      tryAuth_callback_def genAuthToken_def connAuth_def sendInitialStatus_def send_def
      drop_task_def Let_def example_config_def)

subsection \<open>The streaming flag\<close>

text \<open>
  C4. \<^verbatim>\<open>start\<close> leaves \<^verbatim>\<open>isStreaming\<close> as it is, in the call and in the callback that
  spawns the runner (whose outcome the program never looks at). Of all events only the
  completion of the liveness poll of \<^verbatim>\<open>updateStatus\<close> changes the flag: after any event,
  and after any sequence of events, the flag is what the polls among them reported last, or
  what it was before when there was none.
\<close>

theorem streaming_flag_only_polled:
  "isStreaming (snd (start s c params)) = isStreaming s \<and>
   isStreaming (updateConfig_callback s c params path err) = isStreaming s \<and>
   isStreaming (step s e) = poll_result (isStreaming s) e \<and>
   isStreaming (run s es) = foldl poll_result (isStreaming s) es"
  by (simp add: isStreaming_read_only [of "snd (start s c params)"]
      isStreaming_read_only [of "updateConfig_callback s c params path err"]
      isStreaming_step isStreaming_run poll_result_def flip: isStreaming_read_only)

subsection \<open>Frames on a connection that is not authenticated\<close>

lemma auth_loop_no_auth: "''auth'' \<notin> set ks \<Longrightarrow> auth_loop s c m ks = (None, s)"
  by (induction ks) auto

text \<open>
  C5. On a connection that is not authenticated, a frame without an \<^verbatim>\<open>auth\<close> key is
  handled without any effect: the whole state is unchanged, that is, nothing is sent to
  any connection, and the stored config, both token sets, the streaming flag and every
  session stay as they were.
\<close>

theorem unauthenticated_frame_ignored:
  assumes "\<not> isAuthed (conns s c)" and "''auth'' \<notin> set (for_in msg)"
  shows "handleMessage s c msg = (None, s) \<and> incoming s c (Inr msg) = s"
  using assms by (simp add: handleMessage_def incoming_def auth_loop_no_auth)

theorem unauthenticated_frame_ignored_witness:
  "\<not> isAuthed (conns one_client 0) \<and>
   ''auth'' \<notin> set (for_in (Obj [(''start'', example_start)])) \<and>
   handleMessage one_client 0 (Obj [(''start'', example_start)]) = (None, one_client) \<and>
   incoming one_client 0 (Inr (Obj [(''start'', example_start)])) = one_client"
  using unauthenticated_frame_ignored [of one_client 0 "Obj [(''start'', example_start)]"]
  by (simp add: one_client_conn)

subsection \<open>Bitrate commands while not streaming\<close>

text \<open>
  C7. While \<^verbatim>\<open>isStreaming\<close> is false, the \<^verbatim>\<open>bitrate\<close> case of the command loop does
  nothing, and a frame that carries a bitrate command from an authenticated session leaves
  the whole state unchanged: no broadcast is sent and the stored bitrates are kept.
\<close>

theorem bitrate_ignored_when_not_streaming:
  assumes "isAuthed (conns s c)" and "\<not> isStreaming s"
  shows "dispatch s c ''bitrate'' v = (None, s) \<and>
         handleMessage s c (Obj [(''bitrate'', v)]) = (None, s)"
  using assms by (simp add: handleMessage_def dispatch_def)

theorem bitrate_ignored_when_not_streaming_witness:
  "isAuthed (conns token_client 0) \<and> \<not> isStreaming token_client \<and>
   handleMessage token_client 0
     (Obj [(''bitrate'', Obj [(''min_br'', int_lit 1000), (''max_br'', int_lit 2000)])])
     = (None, token_client)"
  using bitrate_ignored_when_not_streaming [of token_client 0
      "Obj [(''min_br'', int_lit 1000), (''max_br'', int_lit 2000)]"]
  by (simp add: token_client_eq startup_def)

subsection \<open>Tokens\<close>

lemma length_base64: "length (base64 bs) = 4 * ((length bs + 2) div 3)"
proof (induction bs rule: base64.induct)
  case (4 a b c r)
  then show ?case by simp arith
qed simp_all

lemma token_not_inherited: "length t = 44 \<Longrightarrow> t \<notin> set Object_prototype"
  by (auto simp: Object_prototype_def)

lemma fst_genAuthToken [simp]: "fst (genAuthToken s p rnd) = base64 rnd"
  by (simp add: genAuthToken_def Let_def)

text \<open>
  C2. The token that \<^verbatim>\<open>genAuthToken\<close> returns (from 32 random bytes, for either
  persistence class) is validated in the state it leaves, and it is no longer validated
  after the \<^verbatim>\<open>logout\<close> of a connection that holds it.
\<close>

theorem token_valid_until_logout:
  assumes "length rnd = 32"
  shows "validate_token (snd (genAuthToken s p rnd)) (fst (genAuthToken s p rnd)) \<and>
         (\<forall>s' c. authToken (conns s' c) = Some (fst (genAuthToken s p rnd)) \<longrightarrow>
            \<not> validate_token (logout s' c) (fst (genAuthToken s p rnd)))"
proof -
  let ?t = "base64 rnd"
  have len: "length ?t = 44"
    using assms by (simp add: length_base64)
  then have own: "?t \<notin> set Object_prototype" and ne: "?t \<noteq> []"
    by (auto dest: token_not_inherited)
  have issued: "validate_token (snd (genAuthToken s p rnd)) ?t"
    by (simp add: genAuthToken_def validate_token_def lookup_token_def
        savePersistentTokens_def Let_def)
  have revoked: "\<not> validate_token (logout s' c) ?t" if "authToken (conns s' c) = Some ?t" for s' c
    using that own ne
    by (simp add: logout_def validate_token_def lookup_token_def savePersistentTokens_def Let_def)
  from issued revoked show ?thesis by simp
qed

theorem token_valid_until_logout_witness:
  "length example_bytes = 32 \<and>
   validate_token (snd (genAuthToken one_client (Bool True) example_bytes)) (base64 example_bytes) \<and>
   validate_token (snd (genAuthToken one_client Undefined example_bytes)) (base64 example_bytes) \<and>
   authToken (conns password_client 0) = Some (base64 example_bytes) \<and>
   \<not> validate_token (logout password_client 0) (base64 example_bytes)"
  using token_valid_until_logout [of example_bytes one_client "Bool True"]
    token_valid_until_logout [of example_bytes one_client Undefined]
  by (simp add: length_example_bytes password_client_conn)

subsection \<open>Replies to a password\<close>



subsection \<open>Refused credentials\<close>

text \<open>
  C9, at the input where the code departs from it: no token is stored, and the token
  \<^verbatim>\<open>constructor\<close> (a property every object inherits) is accepted: the connection is
  authenticated and receives the initial status.
\<close>

theorem inherited_property_accepted_as_token:
  "''constructor'' \<notin> tempTokens one_client \<and>
   ''constructor'' \<notin> persistentTokens one_client \<and>
   \<not> isAuthed (conns one_client 0) \<and>
   handleMessage one_client 0 (Obj [(''auth'', Obj [(''token'', Str ''constructor'')])]) =
     (None, one_client
        \<lparr>conns := (conns one_client)(0 := \<lparr>isAuthed = True, authToken = Some ''constructor''\<rparr>),
         sent := [(0, ''auth'', AuthData True Undefined),
                  (0, ''config'', ConfigData example_config),
                  (0, ''pipelines'', PipelinesData [(''p1'', ''generic/h264'')]),
                  (0, ''status'', StatusData False),
                  (0, ''netif'', NetifData [])]\<rparr>)"
  by (simp add: one_client_def startup_def handleMessage_def tryAuth_def validate_token_def
      lookup_token_def Object_prototype_def connAuth_def sendInitialStatus_def send_def
      buildMsg_def getPipelineList_def example_pipelines_def dispatch_def Let_def)

text \<open>
  A token string that is neither stored nor inherited is answered by \<^verbatim>\<open>auth\<close> without
  success, and a password that does not match by the error \<^verbatim>\<open>Invalid password\<close>; nothing
  else changes.
\<close>

lemma unknown_token_refused:
  assumes "\<not> unreadable a" and "\<not> is_string (field a ''password'')"
    and "field a ''token'' = Str t" and "\<not> validate_token s t"
  shows "tryAuth s c a = (None, send s c (''auth'', AuthData False Undefined))"
  using assms by (cases "field a ''password''") (simp_all add: tryAuth_def buildMsg_def)

lemma wrong_password_refused:
  assumes "\<not> match \<or> err"
  shows "tryAuth_callback s c a err match rnd = send s c (''error'', ErrorData [Txt ''Invalid password''])"
  using assms by (auto simp: tryAuth_callback_def sendError_def buildMsg_def)

subsection \<open>Applying a configuration\<close>

lemma config_send [simp]: "config (send s c m) = config s"
  by (simp add: send_def)

lemma config_startError [simp]: "config (startError s c m) = config s"
  by (simp add: startError_def sendError_def)

lemma config_dns_lookup [simp]: "config (snd (dns_lookup s c p path)) = config s"
  by (simp add: dns_lookup_def split: jsval.splits)

lemma setBitrate_outcome:
  "snd (setBitrate s p) = s \<or> (\<exists>r. fst (setBitrate s p) = Inr (Some r))"
  by (simp add: setBitrate_def Let_def)

lemma setBitrate_rejected: "fst (setBitrate s p) = Inr None \<Longrightarrow> snd (setBitrate s p) = s"
  using setBitrate_outcome [of s p] by auto

lemma setBitrate_config:
  "config (snd (setBitrate s p)) \<in>
     {config s, (config s)\<lparr>min_br := field p ''min_br'', max_br := field p ''max_br''\<rparr>}"
  by (simp add: setBitrate_def saveConfig_def Let_def)

text \<open>
  Before the name lookup completes, \<^verbatim>\<open>updateConfig\<close> changes no field of the stored
  config but the two bitrates, and not even those when the bitrate pair is rejected.
\<close>

lemma updateConfig_config:
  "config (snd (updateConfig s c p)) \<in>
     {config s, (config s)\<lparr>min_br := field p ''min_br'', max_br := field p ''max_br''\<rparr>}"
  using setBitrate_config [of s p]
  by (rule_tac P = "\<lambda>s'. config s' \<in>
        {config s, (config s)\<lparr>min_br := field p ''min_br'', max_br := field p ''max_br''\<rparr>}"
      in updateConfig_cases) simp_all

lemma updateConfig_rejected_bitrate:
  assumes "fst (setBitrate s p) = Inr None"
  shows "config (snd (updateConfig s c p)) = config s"
  using setBitrate_rejected [OF assms]
  by (rule_tac P = "\<lambda>s'. config s' = config s" in updateConfig_cases) simp_all

text \<open>A failed name lookup changes nothing but the frames sent.\<close>

lemma updateConfig_callback_failed:
  "updateConfig_callback s c p path True =
     s\<lparr>sent := sent s @
        [(c, ''error'', ErrorData [Txt ''failed to resolve SRTLA addr '', Val (field p ''srtla_addr'')]),
         (c, ''status'', StatusData False)]\<rparr>"
  by (simp add: updateConfig_callback_def startError_def sendError_def send_def buildMsg_def)

text \<open>
  C1, at an input where the code departs from it: the parameters pass the checks of the
  delay, the pipeline and the bitrates, and lack the SRT latency. \<^verbatim>\<open>updateConfig\<close>
  reports the error, yet the stored bitrates are those of the parameters: \<^verbatim>\<open>setBitrate\<close>
  has stored and saved them, written the bitrate file and signalled the encoder.
\<close>

theorem updateConfig_commits_bitrate_before_failing:
  "updateConfig token_client 0
     (Obj [(''delay'', int_lit 0), (''pipeline'', Str ''p1''),
           (''min_br'', int_lit 1000), (''max_br'', int_lit 2000)]) =
     (None, token_client
        \<lparr>config := example_config\<lparr>min_br := int_lit 1000, max_br := int_lit 2000\<rparr>,
         sent := sent token_client @
                 [(0, ''error'', ErrorData [Txt ''SRT latency not specified'']),
                  (0, ''status'', StatusData False)],
         effects := [WriteFileSync CONFIG_FILE
                       (ConfigJson (example_config\<lparr>min_br := int_lit 1000, max_br := int_lit 2000\<rparr>)),
                     WriteFileSync bitrate_file (BitrateLines (int_lit 1000) (int_lit 2000)),
                     SpawnSync ''killall'' [''-HUP'', ''belacoder'']]\<rparr>) \<and>
   min_br (config token_client) = int_lit 500 \<and> max_br (config token_client) = int_lit 6000"
  by (simp add: token_client_eq startup_def updateConfig_def setBitrate_def searchPipelines_def
      example_pipelines_def startError_def sendError_def send_def buildMsg_def saveConfig_def
      js_lt_num js_gt_num Let_def example_config_def)

subsection \<open>Authentication and commands in one frame\<close>

lemma auth_loop_auth:
  "distinct ks \<Longrightarrow> ''auth'' \<in> set ks \<Longrightarrow> auth_loop s c m ks = tryAuth s c (field m ''auth'')"
proof (induction ks)
  case Nil
  then show ?case by simp
next
  case (Cons k ks)
  show ?case
  proof (cases "k = ''auth''")
    case True
    with Cons.prems have "''auth'' \<notin> set ks" by simp
    then have "\<And>s1. auth_loop s1 c m ks = (None, s1)"
      by (rule auth_loop_no_auth)
    with True show ?thesis
      by (cases "tryAuth s c (field m ''auth'')") (auto split: option.splits)
  next
    case False
    with Cons show ?thesis by simp
  qed
qed

lemma isAuthed_connAuth [simp]: "isAuthed (conns (connAuth s c t) c)"
  by (simp add: connAuth_def sendInitialStatus_def send_def Let_def)

text \<open>
  C3 (amended). In a parsed frame that has an \<^verbatim>\<open>auth\<close> key, the credential is handled
  before any command. A valid token authenticates the connection at once, and the commands
  of the frame are then dispatched in order on the authenticated connection. A password is
  only handed to \<^verbatim>\<open>bcrypt.compare\<close>: the commands of the frame are dropped when the
  connection was not authenticated before, and dispatched when it was.
\<close>

theorem auth_handled_first:
  assumes "distinct (for_in msg)" and "''auth'' \<in> set (for_in msg)"
    and "\<not> unreadable (field msg ''auth'')"
  shows "(\<not> is_string (field (field msg ''auth'') ''password'') \<and>
          field (field msg ''auth'') ''token'' = Str t \<and> validate_token s t \<longrightarrow>
            handleMessage s c msg =
              command_loop
                ((connAuth s c Undefined)
                   \<lparr>conns := (conns (connAuth s c Undefined))
                      (c := (conns (connAuth s c Undefined) c)\<lparr>authToken := Some t\<rparr>)\<rparr>)
                c msg (for_in msg)) \<and>
         (is_string (field (field msg ''auth'') ''password'') \<and> \<not> isAuthed (conns s c) \<longrightarrow>
            handleMessage s c msg =
              (None, s\<lparr>pending := pending s @
                         [Compare c (field msg ''auth'') (password_hash (config s))]\<rparr>)) \<and>
         (is_string (field (field msg ''auth'') ''password'') \<and> isAuthed (conns s c) \<longrightarrow>
            handleMessage s c msg =
              command_loop
                (s\<lparr>pending := pending s @
                     [Compare c (field msg ''auth'') (password_hash (config s))]\<rparr>)
                c msg (for_in msg))"
proof -
  let ?a = "field msg ''auth''"
  have loop: "auth_loop s c msg (for_in msg) = tryAuth s c ?a"
    using assms(1,2) by (rule auth_loop_auth)
  have token: "tryAuth s c ?a =
      (None, (connAuth s c Undefined)
               \<lparr>conns := (conns (connAuth s c Undefined))
                  (c := (conns (connAuth s c Undefined) c)\<lparr>authToken := Some t\<rparr>)\<rparr>)"
    if "\<not> is_string (field ?a ''password'')" "field ?a ''token'' = Str t" "validate_token s t"
    using that assms(3) by (cases "field ?a ''password''") (simp_all add: tryAuth_def Let_def)
  have password: "tryAuth s c ?a =
      (None, s\<lparr>pending := pending s @ [Compare c ?a (password_hash (config s))]\<rparr>)"
    if "is_string (field ?a ''password'')"
    using that assms(3) by (cases "field ?a ''password''") (simp_all add: tryAuth_def)
  show ?thesis
    by (auto simp: handleMessage_def loop token password)
qed

theorem auth_handled_first_witness:
  "distinct (for_in (Obj [(''auth'', Obj [(''token'', Str ''stored'')]), (''stop'', Obj [])])) \<and>
   ''auth'' \<in> set (for_in (Obj [(''auth'', Obj [(''token'', Str ''stored'')]), (''stop'', Obj [])])) \<and>
   \<not> unreadable (field (Obj [(''auth'', Obj [(''token'', Str ''stored'')]), (''stop'', Obj [])]) ''auth'') \<and>
   \<not> is_string (field (Obj [(''token'', Str ''stored'')]) ''password'') \<and>
   is_string (field (Obj [(''password'', Str ''secret'')]) ''password'') \<and>
   validate_token stored_client ''stored'' \<and>
   \<not> isAuthed (conns one_client 0) \<and>
   \<not> isAuthed (conns stored_client 0) \<and>
   effects (snd (handleMessage stored_client 0
      (Obj [(''auth'', Obj [(''token'', Str ''stored'')]), (''stop'', Obj [])]))) =
     [SpawnSync ''pkill'' [''-f'', ''runner.rb''], SpawnSync ''killall'' [''srtla_send''],
      SpawnSync ''killall'' [''srtla_send_upstream''], SpawnSync ''killall'' [''belacoder'']] \<and>
   handleMessage one_client 0
      (Obj [(''auth'', Obj [(''password'', Str ''secret'')]), (''stop'', Obj [])]) =
     (None, one_client\<lparr>pending := [Compare 0 (Obj [(''password'', Str ''secret'')]) (Str ''hash'')]\<rparr>)"
  using
    auth_handled_first [of "Obj [(''auth'', Obj [(''token'', Str ''stored'')]), (''stop'', Obj [])]"
      "''stored''" stored_client 0]
    auth_handled_first [of "Obj [(''auth'', Obj [(''password'', Str ''secret'')]), (''stop'', Obj [])]"
      "''x''" one_client 0]
  by (simp add: stored_client_eq one_client_eq startup_def validate_token_def lookup_token_def
      dispatch_def stop_def connAuth_def sendInitialStatus_def send_def Let_def example_config_def)

text \<open>
  C3 as stated fails for a password: the frame carries a password that \<^verbatim>\<open>bcrypt\<close> then
  finds to match, and \<^verbatim>\<open>stop\<close>; no process is stopped, neither while the frame is
  handled nor when the comparison completes and the connection is authenticated.
\<close>

theorem password_and_command_counterexample:
  "handleMessage one_client 0
      (Obj [(''auth'', Obj [(''password'', Str ''secret'')]), (''stop'', Obj [])]) =
     (None, one_client\<lparr>pending := [Compare 0 (Obj [(''password'', Str ''secret'')]) (Str ''hash'')]\<rparr>) \<and>
   effects (step (one_client\<lparr>pending := [Compare 0 (Obj [(''password'', Str ''secret'')]) (Str ''hash'')]\<rparr>)
              (CompareDone 0 False True example_bytes)) = [] \<and>
   isAuthed (conns (step (one_client\<lparr>pending := [Compare 0 (Obj [(''password'', Str ''secret'')]) (Str ''hash'')]\<rparr>)
              (CompareDone 0 False True example_bytes)) 0)"
  by (simp add: one_client_eq startup_def handleMessage_def tryAuth_def example_config_def
      tryAuth_callback_def genAuthToken_def connAuth_def sendInitialStatus_def send_def
      drop_task_def Let_def)

subsection \<open>Frames that throw\<close>

lemma auth_loop_unreadable:
  "''auth'' \<in> set ks \<Longrightarrow> unreadable (field m ''auth'') \<Longrightarrow> auth_loop s c m ks = (Some TypeError, s)"
  by (induction ks) (auto simp: tryAuth_def)

lemma clients_read_only: "clients s = fst (snd (snd (read_only s)))"
  by (simp add: read_only_def)

text \<open>
  C10 (amended). A frame that \<^verbatim>\<open>JSON.parse\<close> rejects, and a frame whose \<^verbatim>\<open>auth\<close>
  value is \<^verbatim>\<open>null\<close> (on which \<^verbatim>\<open>tryAuth\<close> throws before anything else is done), is
  discarded with no effect at all; and no frame, whatever it throws, closes a connection.
\<close>

theorem unparsable_frame_discarded:
  "incoming s c (Inl e) = s \<and>
   (''auth'' \<in> set (for_in msg) \<and> unreadable (field msg ''auth'') \<longrightarrow>
      handleMessage s c msg = (Some TypeError, s) \<and> incoming s c (Inr msg) = s) \<and>
   clients (incoming s c parsed) = clients s"
proof -
  have "clients (incoming s c parsed) = clients s"
    by (simp add: clients_read_only)
  then show ?thesis
    by (simp add: incoming_def handleMessage_def auth_loop_unreadable)
qed

theorem unparsable_frame_discarded_witness:
  "incoming token_client 0 (Inl SyntaxError) = token_client \<and>
   ''auth'' \<in> set (for_in (Obj [(''stop'', Obj []), (''auth'', Null)])) \<and>
   unreadable (field (Obj [(''stop'', Obj []), (''auth'', Null)]) ''auth'') \<and>
   isAuthed (conns token_client 0) \<and>
   handleMessage token_client 0 (Obj [(''stop'', Obj []), (''auth'', Null)]) = (Some TypeError, token_client) \<and>
   incoming token_client 0 (Inr (Obj [(''stop'', Obj []), (''auth'', Null)])) = token_client"
  using unparsable_frame_discarded [of token_client 0 SyntaxError "Obj [(''stop'', Obj []), (''auth'', Null)]"]
  by (simp add: token_client_eq startup_def)

text \<open>
  C10 as stated fails for a frame that throws in a command: \<^verbatim>\<open>logout\<close> is dispatched,
  then \<^verbatim>\<open>start\<close> throws on \<^verbatim>\<open>null\<close>; the exception is caught, and the session stays
  logged out and its token revoked.
\<close>

theorem throwing_frame_counterexample:
  "handleMessage token_client 0 (Obj [(''logout'', Bool True), (''start'', Null)]) =
     (Some TypeError,
      token_client
        \<lparr>persistentTokens := {},
         conns := (conns token_client)(0 := \<lparr>isAuthed = False, authToken = None\<rparr>),
         effects := [WriteFileSync AUTH_TOKENS_FILE (TokensJson {})]\<rparr>) \<and>
   isAuthed (conns token_client 0) \<and>
   persistentTokens token_client = {''stored''} \<and>
   \<not> isAuthed (conns (incoming token_client 0
         (Inr (Obj [(''logout'', Bool True), (''start'', Null)]))) 0) \<and>
   persistentTokens (incoming token_client 0
         (Inr (Obj [(''logout'', Bool True), (''start'', Null)]))) = {}"
  by (simp add: token_client_eq startup_def incoming_def handleMessage_def dispatch_def logout_def
      lookup_token_def savePersistentTokens_def start_def updateConfig_def Let_def fun_upd_idem)

end
